theory Spec2Isabelle
  imports Complex_Main "HOL-Library.Sublist" "HOL-Library.Multiset"
begin

section \<open>JavaScript values\<close>

text \<open>
  The components type a parsed row as \<^verbatim>\<open>Record<string, any>\<close>, so a cell may hold any
  JavaScript value. Numbers are \<open>NaN\<close>, the two infinities, or a finite value, which is
  taken as the exact rational it denotes (rounding and overflow of binary64 and the
  negative zero are not represented). Strings are sequences of 8-bit code units.
  A function is opaque and is never called; an object is the list of its own enumerable
  properties in enumeration order.
\<close>

datatype jsnum = NaN | PosInfinity | NegInfinity | Finite rat

datatype jsval =
    JUndefined
  | JNull
  | JBool bool
  | JNum jsnum
  | JBigInt int
  | JStr string
  | JFun nat
  | JDate "rat option"
  | JArr "jsval list"
  | JObj "(string \<times> jsval) list"

type_synonym jsrecord = "(string \<times> jsval) list"

datatype jstype = TUndefined | TObject | TBoolean | TNumber | TBigint | TString | TFunction

datatype js_error = TypeError | Error string

fun typeof :: "jsval \<Rightarrow> jstype" where
  "typeof JUndefined = TUndefined"
| "typeof JNull = TObject"
| "typeof (JBool b) = TBoolean"
| "typeof (JNum n) = TNumber"
| "typeof (JBigInt i) = TBigint"
| "typeof (JStr s) = TString"
| "typeof (JFun f) = TFunction"
| "typeof (JDate t) = TObject"
| "typeof (JArr xs) = TObject"
| "typeof (JObj ps) = TObject"

text \<open>Truthiness, as tested by \<^verbatim>\<open>value && ...\<close> and \<^verbatim>\<open>!sortField\<close>.\<close>

fun truthy :: "jsval \<Rightarrow> bool" where
  "truthy JUndefined = False"
| "truthy JNull = False"
| "truthy (JBool b) = b"
| "truthy (JNum n) = (n \<noteq> NaN \<and> n \<noteq> Finite 0)"
| "truthy (JBigInt i) = (i \<noteq> 0)"
| "truthy (JStr s) = (s \<noteq> [])"
| "truthy (JFun f) = True"
| "truthy (JDate t) = True"
| "truthy (JArr xs) = True"
| "truthy (JObj ps) = True"

text \<open>\<^verbatim>\<open>'$$typeof' in value\<close>, for a value that is an object.\<close>

fun has_marker :: "jsval \<Rightarrow> bool" where
  "has_marker (JObj ps) = (''$$typeof'' \<in> set (map fst ps))"
| "has_marker v = False"

text \<open>A property read \<^verbatim>\<open>row[key]\<close> and a property write \<^verbatim>\<open>row[key] = value\<close>.\<close>

definition get_prop :: "jsrecord \<Rightarrow> string \<Rightarrow> jsval" where
  "get_prop r k = (case map_of r k of None \<Rightarrow> JUndefined | Some v \<Rightarrow> v)"

fun set_prop :: "jsrecord \<Rightarrow> string \<Rightarrow> jsval \<Rightarrow> jsrecord" where
  "set_prop [] k v = [(k, v)]"
| "set_prop ((k', v') # ps) k v =
     (if k' = k then (k, v) # ps else (k', v') # set_prop ps k v)"

definition object_keys :: "jsrecord \<Rightarrow> string list" where
  "object_keys r = map fst r"

definition object_values :: "jsrecord \<Rightarrow> jsval list" where
  "object_values r = map snd r"

subsection \<open>Decimal numerals\<close>

definition digit_char :: "nat \<Rightarrow> char" where
  "digit_char n = char_of (48 + n)"

fun show_nat :: "nat \<Rightarrow> string" where
  "show_nat n = (if n < 10 then [digit_char n] else show_nat (n div 10) @ [digit_char (n mod 10)])"

declare show_nat.simps [simp del]

definition show_int :: "int \<Rightarrow> string" where
  "show_int i = (if i < 0 then CHR ''-'' # show_nat (nat (- i)) else show_nat (nat i))"

subsection \<open>Host-defined conversions\<close>

text \<open>
  What ECMAScript leaves to the implementation, to the time zone or to the locale, and
  the shortest round-trip printing of a binary64, are parameters of the model.
\<close>

record host =
  numberToString :: "rat \<Rightarrow> string"
  dateToString :: "rat \<Rightarrow> string"
  dateToISOString :: "rat \<Rightarrow> string"
  functionToString :: "nat \<Rightarrow> string"
  localeCompare :: "string \<Rightarrow> string \<Rightarrow> int"

fun join :: "string \<Rightarrow> string list \<Rightarrow> string" where
  "join sep [] = []"
| "join sep [x] = x"
| "join sep (x # y # ys) = x @ sep @ join sep (y # ys)"

text \<open>\<^verbatim>\<open>String(value)\<close>.\<close>

fun to_string :: "host \<Rightarrow> jsval \<Rightarrow> string" where
  "to_string h JUndefined = ''undefined''"
| "to_string h JNull = ''null''"
| "to_string h (JBool b) = (if b then ''true'' else ''false'')"
| "to_string h (JNum n) =
     (case n of NaN \<Rightarrow> ''NaN'' | PosInfinity \<Rightarrow> ''Infinity''
      | NegInfinity \<Rightarrow> ''-Infinity'' | Finite r \<Rightarrow> numberToString h r)"
| "to_string h (JBigInt i) = show_int i"
| "to_string h (JStr s) = s"
| "to_string h (JFun f) = functionToString h f"
| "to_string h (JDate t) =
     (case t of None \<Rightarrow> ''Invalid Date'' | Some r \<Rightarrow> dateToString h r)"
| "to_string h (JArr xs) =
     join '','' (map (\<lambda>x. if x = JUndefined \<or> x = JNull then [] else to_string h x) xs)"
| "to_string h (JObj ps) = ''[object Object]''"

subsection \<open>\<^verbatim>\<open>JSON.stringify\<close>\<close>

definition hex_digit :: "nat \<Rightarrow> char" where
  "hex_digit n = (if n < 10 then char_of (48 + n) else char_of (87 + n))"

definition json_escape_char :: "char \<Rightarrow> string" where
  "json_escape_char c =
     (let n = (of_char c :: nat) in
      if n = 34 then [CHR 0x5C, CHR 0x22]
      else if n = 92 then [CHR 0x5C, CHR 0x5C]
      else if n = 8 then [CHR 0x5C, CHR ''b'']
      else if n = 12 then [CHR 0x5C, CHR ''f'']
      else if n = 10 then [CHR 0x5C, CHR ''n'']
      else if n = 13 then [CHR 0x5C, CHR ''r'']
      else if n = 9 then [CHR 0x5C, CHR ''t'']
      else if n < 32 then [CHR 0x5C, CHR ''u'', CHR ''0'', CHR ''0'', hex_digit (n div 16), hex_digit (n mod 16)]
      else [c])"

definition json_quote :: "string \<Rightarrow> string" where
  "json_quote s = CHR 0x22 # concat (map json_escape_char s) @ [CHR 0x22]"

text \<open>Serialisation throws a \<open>TypeError\<close> when it meets a BigInt.\<close>

fun json_throws :: "jsval \<Rightarrow> bool" where
  "json_throws (JBigInt i) = True"
| "json_throws (JArr xs) = list_ex json_throws xs"
| "json_throws (JObj ps) = list_ex (\<lambda>p. json_throws (snd p)) ps"
| "json_throws v = False"

text \<open>The text of a value that serialises; \<open>None\<close> is the result \<^verbatim>\<open>undefined\<close>.\<close>

fun json_text :: "host \<Rightarrow> jsval \<Rightarrow> string option" where
  "json_text h JUndefined = None"
| "json_text h JNull = Some ''null''"
| "json_text h (JBool b) = Some (if b then ''true'' else ''false'')"
| "json_text h (JNum n) = Some (case n of Finite r \<Rightarrow> numberToString h r | _ \<Rightarrow> ''null'')"
| "json_text h (JBigInt i) = None"
| "json_text h (JStr s) = Some (json_quote s)"
| "json_text h (JFun f) = None"
| "json_text h (JDate t) =
     Some (case t of None \<Rightarrow> ''null'' | Some r \<Rightarrow> json_quote (dateToISOString h r))"
| "json_text h (JArr xs) =
     Some (''['' @ join '','' (map (\<lambda>x. case json_text h x of None \<Rightarrow> ''null'' | Some s \<Rightarrow> s) xs) @ '']'')"
| "json_text h (JObj ps) =
     Some (''{'' @ join '','' (concat (map (\<lambda>p. case json_text h (snd p) of None \<Rightarrow> []
                                             | Some s \<Rightarrow> [json_quote (fst p) @ '':'' @ s]) ps)) @ ''}'')"

definition JSON_stringify :: "host \<Rightarrow> jsval \<Rightarrow> js_error + string option" where
  "JSON_stringify h v = (if json_throws v then Inl TypeError else Inr (json_text h v))"


section \<open>Strings and numbers\<close>

text \<open>
  \<^verbatim>\<open>toLowerCase\<close> on 8-bit code units maps the capital letters of Basic Latin and of
  the Latin-1 Supplement, unit by unit.
\<close>

definition lower_char :: "char \<Rightarrow> char" where
  "lower_char c =
     (let n = (of_char c :: nat) in
      if (65 \<le> n \<and> n \<le> 90) \<or> (192 \<le> n \<and> n \<le> 222 \<and> n \<noteq> 215) then char_of (n + 32) else c)"

definition toLowerCase :: "string \<Rightarrow> string" where
  "toLowerCase s = map lower_char s"

text \<open>\<^verbatim>\<open>s.includes(t)\<close>: \<open>t\<close> occurs in \<open>s\<close> at some position.\<close>

fun str_includes :: "string \<Rightarrow> string \<Rightarrow> bool" where
  "str_includes [] t = (t = [])"
| "str_includes (c # s) t = (prefix t (c # s) \<or> str_includes s t)"

text \<open>
  \<^verbatim>\<open>Number(string)\<close>: white space is trimmed, the empty string is 0, and the rest must
  be a numeric literal as a whole: a radix-prefixed integer, or a signed
  decimal literal or \<^verbatim>\<open>Infinity\<close>. Anything else is \<open>NaN\<close>.
\<close>

definition is_ws :: "char \<Rightarrow> bool" where
  "is_ws c = ((of_char c :: nat) \<in> {9, 10, 11, 12, 13, 32, 160})"

definition trim :: "string \<Rightarrow> string" where
  "trim s = rev (dropWhile is_ws (rev (dropWhile is_ws s)))"

definition digit_of :: "char \<Rightarrow> nat option" where
  "digit_of c =
     (let n = (of_char c :: nat) in
      if 48 \<le> n \<and> n \<le> 57 then Some (n - 48)
      else if 97 \<le> n \<and> n \<le> 102 then Some (n - 87)
      else if 65 \<le> n \<and> n \<le> 70 then Some (n - 55)
      else None)"

definition is_digit :: "nat \<Rightarrow> char \<Rightarrow> bool" where
  "is_digit base c = (case digit_of c of None \<Rightarrow> False | Some d \<Rightarrow> d < base)"

definition digits_value :: "nat \<Rightarrow> string \<Rightarrow> nat" where
  "digits_value base ds = foldl (\<lambda>acc c. acc * base + (case digit_of c of None \<Rightarrow> 0 | Some d \<Rightarrow> d)) 0 ds"

definition parse_radix :: "nat \<Rightarrow> string \<Rightarrow> jsnum" where
  "parse_radix base ds =
     (if ds \<noteq> [] \<and> list_all (is_digit base) ds then Finite (of_nat (digits_value base ds)) else NaN)"

definition parse_exponent :: "string \<Rightarrow> (bool \<times> nat) option" where
  "parse_exponent es =
     (let (neg, ds) = (case es of [] \<Rightarrow> (False, [])
                        | c # r \<Rightarrow> if c = CHR ''+'' then (False, r)
                                   else if c = CHR ''-'' then (True, r) else (False, es))
      in if ds \<noteq> [] \<and> list_all (is_digit 10) ds then Some (neg, digits_value 10 ds) else None)"

definition parse_unsigned_decimal :: "string \<Rightarrow> rat option" where
  "parse_unsigned_decimal s =
     (let ip = takeWhile (is_digit 10) s;
          r1 = dropWhile (is_digit 10) s;
          fp = (case r1 of [] \<Rightarrow> [] | c # r \<Rightarrow> if c = CHR ''.'' then takeWhile (is_digit 10) r else []);
          r2 = (case r1 of [] \<Rightarrow> [] | c # r \<Rightarrow> if c = CHR ''.'' then dropWhile (is_digit 10) r else r1)
      in if ip = [] \<and> fp = [] then None
         else
           let m = (of_nat (digits_value 10 (ip @ fp)) :: rat) / 10 ^ length fp
           in case r2 of
                [] \<Rightarrow> Some m
              | c # es \<Rightarrow>
                  if c = CHR ''e'' \<or> c = CHR ''E'' then
                    (case parse_exponent es of
                       None \<Rightarrow> None
                     | Some (neg, n) \<Rightarrow> Some (if neg then m / 10 ^ n else m * 10 ^ n))
                  else None)"

definition string_to_number :: "string \<Rightarrow> jsnum" where
  "string_to_number s =
     (let t = trim s in
      if t = [] then Finite 0
      else if take 2 t = ''0x'' \<or> take 2 t = ''0X'' then parse_radix 16 (drop 2 t)
      else if take 2 t = ''0o'' \<or> take 2 t = ''0O'' then parse_radix 8 (drop 2 t)
      else if take 2 t = ''0b'' \<or> take 2 t = ''0B'' then parse_radix 2 (drop 2 t)
      else
        let neg = (take 1 t = ''-'');
            u = (if take 1 t = ''-'' \<or> take 1 t = ''+'' then drop 1 t else t)
        in if u = ''Infinity'' then (if neg then NegInfinity else PosInfinity)
           else case parse_unsigned_decimal u of
                  None \<Rightarrow> NaN
                | Some r \<Rightarrow> Finite (if neg then - r else r))"

definition getTime :: "rat option \<Rightarrow> jsnum" where
  "getTime t = (case t of None \<Rightarrow> NaN | Some r \<Rightarrow> Finite r)"

text \<open>\<^verbatim>\<open>Number(value)\<close> and \<^verbatim>\<open>isNaN\<close>.\<close>

definition Number :: "host \<Rightarrow> jsval \<Rightarrow> jsnum" where
  "Number h v =
     (case v of
        JUndefined \<Rightarrow> NaN
      | JNull \<Rightarrow> Finite 0
      | JBool b \<Rightarrow> Finite (if b then 1 else 0)
      | JNum n \<Rightarrow> n
      | JBigInt i \<Rightarrow> Finite (of_int i)
      | JStr s \<Rightarrow> string_to_number s
      | JDate t \<Rightarrow> getTime t
      | _ \<Rightarrow> string_to_number (to_string h v))"

definition isNaN :: "jsnum \<Rightarrow> bool" where
  "isNaN n = (n = NaN)"

text \<open>Subtraction of numbers, as in \<^verbatim>\<open>aVal - bVal\<close>.\<close>

fun num_sub :: "jsnum \<Rightarrow> jsnum \<Rightarrow> jsnum" where
  "num_sub NaN y = NaN"
| "num_sub x NaN = NaN"
| "num_sub PosInfinity PosInfinity = NaN"
| "num_sub NegInfinity NegInfinity = NaN"
| "num_sub PosInfinity y = PosInfinity"
| "num_sub NegInfinity y = NegInfinity"
| "num_sub (Finite a) PosInfinity = NegInfinity"
| "num_sub (Finite a) NegInfinity = PosInfinity"
| "num_sub (Finite a) (Finite b) = Finite (a - b)"

section \<open>Record sanitizer\<close>

text \<open>
  The three components sanitize a row with the same loop; the table and the export put
  the string \<^verbatim>\<open>'[React Element]'\<close> for a marked object and the chart puts
  \<^verbatim>\<open>null\<close>.
\<close>

definition sanitize_value :: "host \<Rightarrow> jsval \<Rightarrow> jsval \<Rightarrow> js_error + jsval" where
  "sanitize_value h placeholder v =
     (if truthy v \<and> typeof v = TObject \<and> has_marker v then Inr placeholder
      else if truthy v \<and> typeof v = TObject then
        (case JSON_stringify h v of
           Inl e \<Rightarrow> Inl e
         | Inr None \<Rightarrow> Inr JUndefined
         | Inr (Some s) \<Rightarrow> Inr (JStr s))
      else Inr v)"

text \<open>The \<^verbatim>\<open>forEach\<close> over the entries, writing into \<^verbatim>\<open>sanitizedRow\<close>.\<close>

fun sanitize_entries :: "host \<Rightarrow> jsval \<Rightarrow> (string \<times> jsval) list \<Rightarrow> jsrecord \<Rightarrow> js_error + jsrecord" where
  "sanitize_entries h placeholder [] sanitizedRow = Inr sanitizedRow"
| "sanitize_entries h placeholder ((key, v) # es) sanitizedRow =
     (case sanitize_value h placeholder v of
        Inl e \<Rightarrow> Inl e
      | Inr v' \<Rightarrow> sanitize_entries h placeholder es (set_prop sanitizedRow key v'))"

text \<open>\<^verbatim>\<open>Object.entries(row)\<close>.\<close>

definition object_entries :: "jsval \<Rightarrow> js_error + (string \<times> jsval) list" where
  "object_entries row =
     (case row of
        JUndefined \<Rightarrow> Inl TypeError
      | JNull \<Rightarrow> Inl TypeError
      | JObj ps \<Rightarrow> Inr ps
      | JArr xs \<Rightarrow> Inr (zip (map show_nat [0..<length xs]) xs)
      | JStr s \<Rightarrow> Inr (zip (map show_nat [0..<length s]) (map (\<lambda>c. JStr [c]) s))
      | _ \<Rightarrow> Inr [])"

fun map_result :: "('a \<Rightarrow> js_error + 'b) \<Rightarrow> 'a list \<Rightarrow> js_error + 'b list" where
  "map_result f [] = Inr []"
| "map_result f (x # xs) =
     (case f x of
        Inl e \<Rightarrow> Inl e
      | Inr y \<Rightarrow> (case map_result f xs of Inl e \<Rightarrow> Inl e | Inr ys \<Rightarrow> Inr (y # ys)))"

definition React_Element :: jsval where
  "React_Element = JStr ''[React Element]''"

text \<open>The row callback of \<^verbatim>\<open>DataTable\<close> and of \<^verbatim>\<open>useFetchCsvData\<close>.\<close>

definition sanitizedRow_table :: "host \<Rightarrow> jsval \<Rightarrow> js_error + jsrecord" where
  "sanitizedRow_table h row =
     (if typeof row \<noteq> TObject \<or> row = JNull then Inr []
      else case object_entries row of
             Inl e \<Rightarrow> Inl e
           | Inr es \<Rightarrow> sanitize_entries h React_Element es [])"

definition sanitizedData_table :: "host \<Rightarrow> jsval list \<Rightarrow> js_error + jsrecord list" where
  "sanitizedData_table h rows = map_result (sanitizedRow_table h) rows"

text \<open>The second pass of \<^verbatim>\<open>chartData\<close>, over the records of the hook.\<close>

definition sanitizedRow_chart :: "host \<Rightarrow> jsrecord \<Rightarrow> js_error + jsrecord" where
  "sanitizedRow_chart h row = sanitize_entries h JNull row []"

text \<open>The row callback of \<^verbatim>\<open>handleExport\<close>, which has no guard on the row.\<close>

definition sanitizedRow_export :: "host \<Rightarrow> jsval \<Rightarrow> js_error + jsrecord" where
  "sanitizedRow_export h row =
     (case object_entries row of
        Inl e \<Rightarrow> Inl e
      | Inr es \<Rightarrow> sanitize_entries h React_Element es [])"

definition sanitizedData_export :: "host \<Rightarrow> jsval list \<Rightarrow> js_error + jsrecord list" where
  "sanitizedData_export h rows = map_result (sanitizedRow_export h) rows"


section \<open>Component state\<close>

text \<open>
  Both \<^verbatim>\<open>useFetchCsvData\<close> and \<^verbatim>\<open>DataTable\<close> hold \<open>data\<close>, \<open>loading\<close> and
  \<open>error\<close>; the table adds the filter text and the sort state.
\<close>

record fetch_state =
  data :: "jsrecord list"
  loading :: bool
  error :: "string option"

record table_state = fetch_state +
  filter_text :: string
  sortField :: "string option"
  sortAsc :: bool

text \<open>Truthiness of a \<^verbatim>\<open>string | null\<close>.\<close>

definition truthy_str :: "string option \<Rightarrow> bool" where
  "truthy_str s = (case s of None \<Rightarrow> False | Some t \<Rightarrow> t \<noteq> [])"

section \<open>Table view engine\<close>

definition row_matches :: "host \<Rightarrow> string \<Rightarrow> jsrecord \<Rightarrow> bool" where
  "row_matches h flt row =
     list_ex (\<lambda>val. str_includes (toLowerCase (to_string h val)) (toLowerCase flt)) (object_values row)"

definition filteredData :: "host \<Rightarrow> ('a table_state_scheme) \<Rightarrow> jsrecord list" where
  "filteredData h st =
     (if loading st \<or> truthy_str (error st) \<or> length (data st) = 0 then []
      else filter (row_matches h (filter_text st)) (data st))"

text \<open>
  The comparator handed to \<^verbatim>\<open>sort\<close>. Its first test, \<^verbatim>\<open>!sortField\<close>, holds for
  \<^verbatim>\<open>null\<close> and for the empty string.
\<close>

definition compare_strings :: "host \<Rightarrow> bool \<Rightarrow> jsval \<Rightarrow> jsval \<Rightarrow> jsnum" where
  "compare_strings h asc aVal bVal =
     (if asc then Finite (of_int (localeCompare h (to_string h aVal) (to_string h bVal)))
      else Finite (of_int (localeCompare h (to_string h bVal) (to_string h aVal))))"

definition compareRows :: "host \<Rightarrow> string option \<Rightarrow> bool \<Rightarrow> jsrecord \<Rightarrow> jsrecord \<Rightarrow> jsnum" where
  "compareRows h sf asc a b =
     (case sf of
        None \<Rightarrow> Finite 0
      | Some field \<Rightarrow>
          if field = [] then Finite 0
          else
            let aVal = get_prop a field; bVal = get_prop b field in
            if aVal = JNull \<or> aVal = JUndefined then (if asc then Finite (- 1) else Finite 1)
            else if bVal = JNull \<or> bVal = JUndefined then (if asc then Finite 1 else Finite (- 1))
            else
              (case (aVal, bVal) of
                 (JNum x, JNum y) \<Rightarrow> (if asc then num_sub x y else num_sub y x)
               | (JDate s, JDate t) \<Rightarrow>
                   (let aTime = getTime s; bTime = getTime t in
                    if isNaN aTime \<or> isNaN bTime then compare_strings h asc aVal bVal
                    else if asc then num_sub aTime bTime else num_sub bTime aTime)
               | _ \<Rightarrow> compare_strings h asc aVal bVal))"

text \<open>
  \<^verbatim>\<open>Array.prototype.sort\<close> is stable and reads a comparator result \<open>NaN\<close> as 0. For a
  consistent comparator its result is the stable insertion sort below; for any other
  comparator ECMAScript leaves the order to the implementation.
\<close>

fun is_positive :: "jsnum \<Rightarrow> bool" where
  "is_positive PosInfinity = True"
| "is_positive (Finite r) = (0 < r)"
| "is_positive n = False"


fun insert_by :: "('a \<Rightarrow> 'a \<Rightarrow> jsnum) \<Rightarrow> 'a \<Rightarrow> 'a list \<Rightarrow> 'a list" where
  "insert_by cmp x [] = [x]"
| "insert_by cmp x (y # ys) =
     (if is_positive (cmp x y) then y # insert_by cmp x ys else x # y # ys)"

definition array_sort :: "('a \<Rightarrow> 'a \<Rightarrow> jsnum) \<Rightarrow> 'a list \<Rightarrow> 'a list" where
  "array_sort cmp xs = foldr (insert_by cmp) xs []"

definition sortedData :: "host \<Rightarrow> ('a table_state_scheme) \<Rightarrow> jsrecord list" where
  "sortedData h st =
     (if length (filteredData h st) = 0 then []
      else array_sort (compareRows h (sortField st) (sortAsc st)) (filteredData h st))"

section \<open>Numeric summary engine\<close>

record chart_dataset =
  label :: string
  data_series :: "jsnum option list"
  backgroundColor :: string

record chart_data =
  labels :: "string list"
  datasets :: "chart_dataset list"

text \<open>The test that selects \<^verbatim>\<open>numericKeys\<close> on the first record.\<close>

definition numeric_key :: "host \<Rightarrow> jsval \<Rightarrow> bool" where
  "numeric_key h v =
     (v \<noteq> JNull \<and> v \<noteq> JUndefined \<and>
      (typeof v = TNumber \<or> (typeof v = TString \<and> \<not> isNaN (Number h v))))"

text \<open>One point of a series, \<open>None\<close> for \<^verbatim>\<open>null\<close>.\<close>

definition chart_point :: "host \<Rightarrow> jsval \<Rightarrow> jsnum option" where
  "chart_point h v =
     (if typeof v = TNumber then Some (Number h v)
      else if typeof v = TString \<and> \<not> isNaN (Number h v) then Some (Number h v)
      else None)"

definition chartData :: "host \<Rightarrow> ('a fetch_state_scheme) \<Rightarrow> js_error + chart_data option" where
  "chartData h st =
     (if loading st \<or> truthy_str (error st) \<or> length (data st) = 0 then Inr None
      else
        let lbls = map (\<lambda>i. ''Row '' @ show_nat (i + 1)) [0..<length (data st)];
            numericKeys = filter (\<lambda>key. numeric_key h (get_prop (data st ! 0) key))
                                 (object_keys (data st ! 0))
        in if length numericKeys = 0 then Inr None
           else
             case map_result (sanitizedRow_chart h) (data st) of
               Inl e \<Rightarrow> Inl e
             | Inr sanitizedData \<Rightarrow>
                 Inr (Some \<lparr>labels = lbls,
                            datasets =
                              map (\<lambda>(key, i).
                                     \<lparr>label = key,
                                      data_series = map (\<lambda>row. chart_point h (get_prop row key)) sanitizedData,
                                      backgroundColor = ''hsl('' @ show_nat (i * 60) @ '', 70%, 50%)''\<rparr>)
                                  (zip numericKeys [0..<length numericKeys])\<rparr>))"

section \<open>Export\<close>

text \<open>
  \<^verbatim>\<open>fetch\<close>, \<^verbatim>\<open>Papa.parse\<close> and the \<^verbatim>\<open>json2csv\<close> parser are libraries; what they
  return for a given argument is a parameter. A response is its status and its body,
  and \<^verbatim>\<open>response.ok\<close> holds for the statuses 200 to 299.
\<close>

datatype fetch_outcome = Rejected string | Response nat string

datatype papa_outcome = Complete "jsval list" "string list" | ParseFailed string

record export_env =
  fetch :: "string \<Rightarrow> fetch_outcome"
  papa_parse :: "string \<Rightarrow> papa_outcome"
  json2csv_parse :: "jsrecord list \<Rightarrow> js_error + string"

definition response_ok :: "nat \<Rightarrow> bool" where
  "response_ok status = (200 \<le> status \<and> status \<le> 299)"

record home_state =
  csvFilePath :: string
  dark :: bool
  csvError :: "string option"
  fetchError :: "string option"
  parseError :: "string option"
  exportError :: "string option"

text \<open>
  The page: the state of \<^verbatim>\<open>Home\<close>, the state of the table it renders, and the files
  the browser was told to save (name and content).
\<close>

record app_state =
  home :: home_state
  table :: table_state
  downloads :: "(string \<times> string) list"

definition initial_home :: home_state where
  "initial_home =
     \<lparr>csvFilePath = ''/2017PurchasePricesDec.csv'', dark = False, csvError = None,
      fetchError = None, parseError = None, exportError = None\<rparr>"

definition clear_errors :: "home_state \<Rightarrow> home_state" where
  "clear_errors s = s\<lparr>csvError := None, fetchError := None, parseError := None, exportError := None\<rparr>"

text \<open>The body of the \<^verbatim>\<open>try\<close> block up to the CSV text.\<close>

definition serialize :: "host \<Rightarrow> export_env \<Rightarrow> jsval list \<Rightarrow> js_error + string" where
  "serialize h env rows =
     (case sanitizedData_export h rows of
        Inl e \<Rightarrow> Inl e
      | Inr sanitizedData \<Rightarrow> json2csv_parse env sanitizedData)"

text \<open>
  \<^verbatim>\<open>handleExport\<close>, with the promise chain and the parser callbacks run to their end.
\<close>

definition handleExport :: "host \<Rightarrow> export_env \<Rightarrow> app_state \<Rightarrow> app_state" where
  "handleExport h env app =
     (if csvFilePath (home app) = [] then
        app\<lparr>home := (home app)\<lparr>csvError := Some ''Please upload a CSV file first.''\<rparr>\<rparr>
      else
        let s = clear_errors (home app) in
        case fetch env (csvFilePath (home app)) of
          Rejected msg \<Rightarrow>
            app\<lparr>home := s\<lparr>fetchError := Some (''Error fetching CSV file: '' @ msg)\<rparr>\<rparr>
        | Response status csvText \<Rightarrow>
            if \<not> response_ok status then
              app\<lparr>home := s\<lparr>fetchError :=
                Some (''Error fetching CSV file: '' @ ''Network response was not ok: '' @ show_nat status)\<rparr>\<rparr>
            else
              (case papa_parse env csvText of
                 ParseFailed msg \<Rightarrow> app\<lparr>home := s\<lparr>parseError := Some ''Error parsing CSV file.''\<rparr>\<rparr>
               | Complete rows errors \<Rightarrow>
                   if length errors \<noteq> 0 then
                     app\<lparr>home := s\<lparr>parseError := Some ''Error parsing CSV file.''\<rparr>\<rparr>
                   else
                     (case serialize h env rows of
                        Inl e \<Rightarrow>
                          app\<lparr>home := s\<lparr>exportError := Some ''Error generating CSV file for download.''\<rparr>\<rparr>
                      | Inr csv \<Rightarrow>
                          app\<lparr>home := s, downloads := downloads app @ [(''sustainity-data.csv'', csv)]\<rparr>)))"

section \<open>Notions of the specification\<close>

text \<open>
  The test \<^verbatim>\<open>value && typeof value === 'object'\<close> of the sanitizer: a date, an
  array or a plain object.
\<close>

definition is_object :: "jsval \<Rightarrow> bool" where
  "is_object v = (truthy v \<and> typeof v = TObject)"

text \<open>A value on which the sanitizer throws: it reaches \<^verbatim>\<open>JSON.stringify\<close>, which throws.\<close>

definition value_throws :: "jsval \<Rightarrow> bool" where
  "value_throws v = (is_object v \<and> \<not> has_marker v \<and> json_throws v)"

text \<open>
  The rule of the specification for one value: the placeholder for a marked object, the
  JSON text for any other object, and the value itself otherwise.
\<close>

definition sanitized_value :: "host \<Rightarrow> jsval \<Rightarrow> jsval \<Rightarrow> jsval" where
  "sanitized_value h placeholder v =
     (if is_object v \<and> has_marker v then placeholder
      else if is_object v then (case json_text h v of None \<Rightarrow> JUndefined | Some s \<Rightarrow> JStr s)
      else v)"

text \<open>
  A dataset as the hooks store it: every record has each key once and holds no object.
\<close>

definition sanitized_dataset :: "jsrecord list \<Rightarrow> bool" where
  "sanitized_dataset ds =
     (\<forall>r\<in>set ds. distinct (object_keys r) \<and> (\<forall>v\<in>set (object_values r). \<not> is_object v))"

text \<open>
  A string parses fully as a number; a value is eligible when it is a number or such a
  string; the point a value contributes to a series.
\<close>

definition parses_fully :: "string \<Rightarrow> bool" where
  "parses_fully s = (string_to_number s \<noteq> NaN)"

definition eligible :: "jsval \<Rightarrow> bool" where
  "eligible v = (case v of JNum n \<Rightarrow> True | JStr s \<Rightarrow> parses_fully s | _ \<Rightarrow> False)"

definition series_point :: "jsval \<Rightarrow> jsnum option" where
  "series_point v =
     (case v of
        JNum n \<Rightarrow> Some n
      | JStr s \<Rightarrow> if parses_fully s then Some (string_to_number s) else None
      | _ \<Rightarrow> None)"

definition chart_series :: "chart_data option \<Rightarrow> chart_dataset list" where
  "chart_series res = (case res of None \<Rightarrow> [] | Some c \<Rightarrow> datasets c)"

definition chart_columns :: "chart_data option \<Rightarrow> string list" where
  "chart_columns res = map label (chart_series res)"


subsection \<open>A host for the examples\<close>

text \<open>
  Integers print in decimal and strings compare by code units; the other conversions
  return fixed texts.
\<close>

fun code_unit_compare :: "string \<Rightarrow> string \<Rightarrow> int" where
  "code_unit_compare [] [] = 0"
| "code_unit_compare [] (d # t) = - 1"
| "code_unit_compare (c # s) [] = 1"
| "code_unit_compare (c # s) (d # t) =
     (if (of_char c :: nat) < of_char d then - 1
      else if (of_char d :: nat) < of_char c then 1
      else code_unit_compare s t)"

definition example_host :: host where
  "example_host =
     \<lparr>numberToString = (\<lambda>r. show_int \<lfloor>r\<rfloor>),
      dateToString = (\<lambda>r. ''Thu Jan 01 1970 00:00:00 GMT+0000''),
      dateToISOString = (\<lambda>r. ''1970-01-01T00:00:00.000Z''),
      functionToString = (\<lambda>f. ''function () { }''),
      localeCompare = code_unit_compare\<rparr>"

subsection \<open>Example states\<close>

text \<open>
  The dataset of the CSV text \<^verbatim>\<open>name,price\nApple,1.5\nBanana,abc\n\<close>, loaded in the
  table with the filter \<^verbatim>\<open>banana\<close>, and a dataset with a column of empty cells.
\<close>

definition example_data :: "jsrecord list" where
  "example_data =
     [[(''name'', JStr ''Apple''), (''price'', JStr ''1.5'')],
      [(''name'', JStr ''Banana''), (''price'', JStr ''abc'')]]"

definition example_table :: table_state where
  "example_table =
     \<lparr>data = example_data, loading = False, error = None,
      filter_text = ''banana'', sortField = Some ''price'', sortAsc = True\<rparr>"

definition blank_data :: "jsrecord list" where
  "blank_data =
     [[(''name'', JStr ''Apple''), (''note'', JStr [])],
      [(''name'', JStr ''Pear''), (''note'', JStr ''ripe'')],
      [(''name'', JStr ''Plum''), (''note'', JStr [])]]"

definition blank_fetch :: fetch_state where
  "blank_fetch = \<lparr>data = blank_data, loading = False, error = None\<rparr>"

text \<open>
  The page with the default path: once with the example dataset in the table, and once
  with no row loaded because the file is missing. An environment in which the file is
  served and parsed but \<^verbatim>\<open>json2csv\<close> throws, and one in which the file is missing.
\<close>

definition example_app :: app_state where
  "example_app = \<lparr>home = initial_home, table = example_table, downloads = []\<rparr>"

definition empty_app :: app_state where
  "empty_app =
     \<lparr>home = initial_home,
      table = \<lparr>data = [], loading = False, error = Some ''HTTP error! status: 404'',
               filter_text = [], sortField = None, sortAsc = True\<rparr>,
      downloads = []\<rparr>"

definition throwing_env :: export_env where
  "throwing_env =
     \<lparr>fetch = (\<lambda>path. Response 200 (''name,price'' @ [CHR 0x0A] @ ''Apple,1.5'')),
      papa_parse = (\<lambda>csvText. Complete [JObj [(''name'', JStr ''Apple''), (''price'', JStr ''1.5'')]] []),
      json2csv_parse = (\<lambda>rows. Inl (Error ''cannot serialise''))\<rparr>"

definition missing_env :: export_env where
  "missing_env =
     \<lparr>fetch = (\<lambda>path. Response 404 ''Not Found''),
      papa_parse = (\<lambda>csvText. Complete [] []),
      json2csv_parse = (\<lambda>rows. Inr [])\<rparr>"



section \<open>Properties of the sanitizer\<close>

lemma is_object_cases: "is_object v \<longleftrightarrow> (\<exists>t. v = JDate t) \<or> (\<exists>xs. v = JArr xs) \<or> (\<exists>ps. v = JObj ps)"
  by (cases v) (auto simp: is_object_def)

lemma json_text_object: "is_object v \<Longrightarrow> \<exists>s. json_text h v = Some s"
  by (auto simp: is_object_cases)

lemma sanitize_value_eq:
  "sanitize_value h ph v = (if value_throws v then Inl TypeError else Inr (sanitized_value h ph v))"
  using json_text_object[of v h]
  by (auto simp: sanitize_value_def value_throws_def sanitized_value_def is_object_def JSON_stringify_def)

lemma set_prop_append: "k \<notin> set (map fst acc) \<Longrightarrow> set_prop acc k v = acc @ [(k, v)]"
  by (induction acc) auto

lemma sanitize_entries_distinct:
  "distinct (map fst (acc @ es)) \<Longrightarrow> \<forall>v\<in>set (map snd es). \<not> value_throws v \<Longrightarrow>
   sanitize_entries h ph es acc = Inr (acc @ map (\<lambda>(k, v). (k, sanitized_value h ph v)) es)"
proof (induction es arbitrary: acc)
  case Nil
  then show ?case by simp
next
  case (Cons e es)
  obtain k v where e: "e = (k, v)" by (cases e)
  from Cons.prems have knew: "k \<notin> set (map fst acc)" and d: "distinct (map fst ((acc @ [(k, sanitized_value h ph v)]) @ es))"
    by (auto simp: e)
  from Cons.prems have nt: "\<not> value_throws v" and rest: "\<forall>v\<in>set (map snd es). \<not> value_throws v"
    by (auto simp: e)
  show ?case
    using Cons.IH[OF d rest] knew nt
    by (simp add: e sanitize_value_eq set_prop_append)
qed


lemma set_prop_mem: "p \<in> set (set_prop acc k v) \<Longrightarrow> p = (k, v) \<or> p \<in> set acc"
  by (induction acc) (auto split: if_splits)

lemma set_prop_values: "set (map snd (set_prop acc k v)) \<subseteq> insert v (set (map snd acc))"
  using set_prop_mem[of _ acc k v] by force

lemma set_prop_keys: "map fst (set_prop acc k v) = (if k \<in> set (map fst acc) then map fst acc else map fst acc @ [k])"
  by (induction acc) (force split: if_splits)+


lemma sanitize_entries_throws:
  "\<exists>v\<in>set (map snd es). value_throws v \<Longrightarrow> sanitize_entries h ph es acc = Inl TypeError"
proof (induction es arbitrary: acc)
  case Nil
  then show ?case by simp
next
  case (Cons e es)
  then show ?case by (cases e) (auto simp: sanitize_value_eq)
qed

lemma sanitize_entries_values:
  "sanitize_entries h ph es acc = Inr r' \<Longrightarrow>
   set (map snd r') \<subseteq> set (map snd acc) \<union> sanitized_value h ph ` set (map snd es)"
proof (induction es arbitrary: acc)
  case Nil
  then show ?case by simp
next
  case (Cons e es)
  obtain k v where e: "e = (k, v)" by (cases e)
  from Cons.prems have step: "sanitize_entries h ph es (set_prop acc k (sanitized_value h ph v)) = Inr r'"
    by (simp add: e sanitize_value_eq split: if_splits)
  from Cons.IH[OF step] set_prop_values[of acc k "sanitized_value h ph v"]
  show ?case by (auto simp: e)
qed

lemma sanitized_value_kinds:
  "sanitized_value h ph v = ph \<or> typeof (sanitized_value h ph v) = TString \<or>
   (\<not> is_object v \<and> sanitized_value h ph v = v)"
  using json_text_object[of v h] by (auto simp: sanitized_value_def)

lemma sanitized_value_scalar: "\<not> is_object ph \<Longrightarrow> \<not> is_object (sanitized_value h ph v)"
  using sanitized_value_kinds[of h ph v] by (auto simp: is_object_def)

text \<open>What the hooks store is a sanitized dataset.\<close>

lemma set_prop_distinct: "distinct (map fst acc) \<Longrightarrow> distinct (map fst (set_prop acc k v))"
  by (simp add: set_prop_keys)

lemma sanitize_entries_keys_distinct:
  "distinct (map fst acc) \<Longrightarrow> sanitize_entries h ph es acc = Inr r' \<Longrightarrow> distinct (map fst r')"
proof (induction es arbitrary: acc)
  case Nil
  then show ?case by simp
next
  case (Cons e es)
  obtain k v where e: "e = (k, v)" by (cases e)
  from Cons.prems(2) have step: "sanitize_entries h ph es (set_prop acc k (sanitized_value h ph v)) = Inr r'"
    by (simp add: e sanitize_value_eq split: if_splits)
  show ?case
    by (rule Cons.IH[OF set_prop_distinct[OF Cons.prems(1)] step])
qed

lemma sanitize_entries_scalar:
  assumes "sanitize_entries h ph es [] = Inr r'" and "\<not> is_object ph"
  shows "\<forall>v\<in>set (object_values r'). \<not> is_object v"
  using sanitize_entries_values[OF assms(1)] sanitized_value_scalar[OF assms(2)]
  by (auto simp: object_values_def)

lemma sanitizedRow_table_sanitized:
  assumes "sanitizedRow_table h row = Inr r"
  shows "distinct (object_keys r) \<and> (\<forall>v\<in>set (object_values r). \<not> is_object v)"
proof (cases "typeof row \<noteq> TObject \<or> row = JNull")
  case True
  with assms have "r = []" by (simp add: sanitizedRow_table_def)
  then show ?thesis by (simp add: object_keys_def object_values_def)
next
  case False
  with assms obtain es where es: "sanitize_entries h React_Element es [] = Inr r"
    by (auto simp: sanitizedRow_table_def split: sum.splits)
  have "\<not> is_object React_Element" by (simp add: is_object_def React_Element_def)
  with es show ?thesis
    using sanitize_entries_keys_distinct[of "[]" h React_Element es r] sanitize_entries_scalar[OF es]
    by (simp add: object_keys_def)
qed

lemma map_result_Inr:
  "map_result f xs = Inr ys \<Longrightarrow> \<forall>y\<in>set ys. \<exists>x\<in>set xs. f x = Inr y"
  by (induction xs arbitrary: ys) (auto split: sum.splits)

lemma sanitizedData_table_sanitized:
  "sanitizedData_table h rows = Inr ds \<Longrightarrow> sanitized_dataset ds"
  unfolding sanitizedData_table_def sanitized_dataset_def
  using map_result_Inr sanitizedRow_table_sanitized by blast









section \<open>Properties of the numeric summary\<close>


lemma map_result_id: "\<forall>x\<in>set xs. f x = Inr x \<Longrightarrow> map_result f xs = Inr xs"
  by (induction xs) auto

lemma sanitizedRow_chart_id:
  assumes "distinct (object_keys r)" and "\<forall>v\<in>set (object_values r). \<not> is_object v"
  shows "sanitizedRow_chart h r = Inr r"
proof -
  have nt: "\<forall>v\<in>set (map snd r). \<not> value_throws v"
    using assms(2) by (simp add: object_values_def value_throws_def)
  have "map (\<lambda>(k, v). (k, sanitized_value h JNull v)) r = r"
    using assms(2) by (intro map_idI) (auto simp: object_values_def sanitized_value_def)
  then show ?thesis
    using sanitize_entries_distinct[of "[]" r h JNull] assms(1) nt
    by (simp add: sanitizedRow_chart_def object_keys_def)
qed

lemma numeric_key_eligible: "numeric_key h v = eligible v"
  by (cases v) (simp_all add: numeric_key_def eligible_def parses_fully_def Number_def isNaN_def)

lemma chart_point_series: "chart_point h v = series_point v"
  by (cases v) (simp_all add: chart_point_def series_point_def parses_fully_def Number_def isNaN_def)

lemma chartData_loaded:
  assumes "\<not> loading st" and "\<not> truthy_str (error st)" and "data st \<noteq> []"
    and "sanitized_dataset (data st)"
  shows "\<exists>res. chartData h st = Inr res \<and>
           chart_columns res = filter (\<lambda>k. eligible (get_prop (data st ! 0) k)) (object_keys (data st ! 0)) \<and>
           (res = None \<longleftrightarrow> chart_columns res = []) \<and>
           (\<forall>d\<in>set (chart_series res).
              data_series d = map (\<lambda>r. series_point (get_prop r (label d))) (data st))"
proof -
  let ?nk = "filter (\<lambda>k. eligible (get_prop (data st ! 0) k)) (object_keys (data st ! 0))"
  have san: "map_result (sanitizedRow_chart h) (data st) = Inr (data st)"
    using assms(4) by (intro map_result_id) (simp add: sanitized_dataset_def sanitizedRow_chart_id)
  show ?thesis
  proof (cases "?nk = []")
    case True
    then have "chartData h st = Inr None"
      using assms(1-3) by (simp add: chartData_def numeric_key_eligible Let_def)
    then show ?thesis using True by (simp add: chart_columns_def chart_series_def)
  next
    case False
    define ds where "ds = map (\<lambda>(key, i).
                 \<lparr>label = key,
                  data_series = map (\<lambda>row. chart_point h (get_prop row key)) (data st),
                  backgroundColor = ''hsl('' @ show_nat (i * 60) @ '', 70%, 50%)''\<rparr>)
               (zip ?nk [0..<length ?nk])"
    define c where "c = \<lparr>labels = map (\<lambda>i. ''Row '' @ show_nat (i + 1)) [0..<length (data st)], datasets = ds\<rparr>"
    have cd: "chartData h st = Inr (Some c)"
      using assms(1-3) False san by (simp add: chartData_def numeric_key_eligible Let_def c_def ds_def)
    have "map label ds = map fst (zip ?nk [0..<length ?nk])"
      by (simp add: case_prod_unfold comp_def ds_def)
    also have "\<dots> = ?nk" by simp
    finally have cols: "chart_columns (Some c) = ?nk"
      by (simp add: chart_columns_def chart_series_def c_def)
    have ser: "\<forall>d\<in>set (chart_series (Some c)). data_series d = map (\<lambda>r. series_point (get_prop r (label d))) (data st)"
      by (auto simp: chart_point_series chart_series_def c_def ds_def)
    have nn: "(Some c = None) \<longleftrightarrow> chart_columns (Some c) = []"
      using cols False by simp
    show ?thesis
      using cd cols ser nn by blast
  qed
qed

text \<open>
  C1. For a loaded, non-empty dataset, the chart summary is computed, a column is in it
  exactly when its value in the first record is a number or a string that parses fully
  as a number, and the series of every column in it is aligned with the records: each
  record contributes its number, or the number its string parses to, and \<^verbatim>\<open>null\<close>
  otherwise.
\<close>

theorem chart_columns_and_series:
  assumes "\<not> loading st" and "\<not> truthy_str (error st)" and "data st \<noteq> []"
    and "sanitized_dataset (data st)"
  shows "\<exists>res. chartData h st = Inr res \<and>
           (\<forall>k. k \<in> set (chart_columns res) \<longleftrightarrow>
                  k \<in> set (object_keys (data st ! 0)) \<and> eligible (get_prop (data st ! 0) k)) \<and>
           (\<forall>d\<in>set (chart_series res).
              data_series d = map (\<lambda>r. series_point (get_prop r (label d))) (data st))"
proof -
  from chartData_loaded[OF assms, of h] obtain res where
    "chartData h st = Inr res"
    "chart_columns res = filter (\<lambda>k. eligible (get_prop (data st ! 0) k)) (object_keys (data st ! 0))"
    "\<forall>d\<in>set (chart_series res). data_series d = map (\<lambda>r. series_point (get_prop r (label d))) (data st)"
    by blast
  then show ?thesis by auto
qed

text \<open>
  C10. When the first record maps a column to the empty string, the column is in the
  chart summary, and every record whose value at that column is the empty string
  contributes the point 0 to its series.
\<close>

theorem empty_string_is_zero:
  assumes "\<not> loading st" and "\<not> truthy_str (error st)" and "data st \<noteq> []"
    and "sanitized_dataset (data st)"
    and "k \<in> set (object_keys (data st ! 0))" and "get_prop (data st ! 0) k = JStr []"
  shows "\<exists>c. chartData h st = Inr (Some c) \<and> k \<in> set (map label (datasets c)) \<and>
           (\<forall>d\<in>set (datasets c). label d = k \<longrightarrow>
              length (data_series d) = length (data st) \<and>
              (\<forall>i<length (data st). get_prop (data st ! i) k = JStr [] \<longrightarrow>
                 data_series d ! i = Some (Finite 0)))"
proof -
  have zero: "string_to_number [] = Finite 0"
    by (simp add: string_to_number_def trim_def)
  from chartData_loaded[OF assms(1-4), of h] obtain res where
    cd: "chartData h st = Inr res" and
    cols: "chart_columns res = filter (\<lambda>k. eligible (get_prop (data st ! 0) k)) (object_keys (data st ! 0))" and
    none: "res = None \<longleftrightarrow> chart_columns res = []" and
    ser: "\<forall>d\<in>set (chart_series res). data_series d = map (\<lambda>r. series_point (get_prop r (label d))) (data st)"
    by blast
  have "eligible (JStr [])" by (simp add: eligible_def parses_fully_def zero)
  with assms(5,6) cols have kin: "k \<in> set (chart_columns res)" by simp
  with none obtain c where c: "res = Some c" by (cases res) auto
  have pt: "series_point (JStr []) = Some (Finite 0)"
    by (simp add: series_point_def parses_fully_def zero)
  show ?thesis
    using cd kin ser pt by (auto simp: c chart_columns_def chart_series_def)
qed


theorem chart_columns_and_series_witness:
  "\<not> loading example_table \<and> \<not> truthy_str (error example_table) \<and> data example_table \<noteq> [] \<and>
   sanitized_dataset (data example_table) \<and>
   chartData example_host example_table =
     Inr (Some \<lparr>labels = [''Row 1'', ''Row 2''],
                 datasets = [\<lparr>label = ''price'', data_series = [Some (Finite (3 / 2)), None],
                              backgroundColor = ''hsl(0, 70%, 50%)''\<rparr>]\<rparr>) \<and>
   (\<exists>res. chartData example_host example_table = Inr res \<and>
      (\<forall>k. k \<in> set (chart_columns res) \<longleftrightarrow>
             k \<in> set (object_keys (data example_table ! 0)) \<and> eligible (get_prop (data example_table ! 0) k)) \<and>
      (\<forall>d\<in>set (chart_series res).
         data_series d = map (\<lambda>r. series_point (get_prop r (label d))) (data example_table)))"
proof -
  have a: "\<not> loading example_table" and b: "\<not> truthy_str (error example_table)"
    and c: "data example_table \<noteq> []"
    by (simp_all add: example_table_def truthy_str_def example_data_def)
  have d: "sanitized_dataset (data example_table)"
    by (simp add: example_table_def example_data_def sanitized_dataset_def object_keys_def
        object_values_def is_object_def)
  have e: "chartData example_host example_table =
     Inr (Some \<lparr>labels = [''Row 1'', ''Row 2''],
                 datasets = [\<lparr>label = ''price'', data_series = [Some (Finite (3 / 2)), None],
                              backgroundColor = ''hsl(0, 70%, 50%)''\<rparr>]\<rparr>)"
    by code_simp
  show ?thesis
    using a b c d e chart_columns_and_series[OF a b c d, of example_host] by simp
qed

theorem empty_string_is_zero_witness:
  "\<not> loading blank_fetch \<and> \<not> truthy_str (error blank_fetch) \<and> data blank_fetch \<noteq> [] \<and>
   sanitized_dataset (data blank_fetch) \<and>
   ''note'' \<in> set (object_keys (data blank_fetch ! 0)) \<and> get_prop (data blank_fetch ! 0) ''note'' = JStr [] \<and>
   chartData example_host blank_fetch =
     Inr (Some \<lparr>labels = [''Row 1'', ''Row 2'', ''Row 3''],
                 datasets = [\<lparr>label = ''note'', data_series = [Some (Finite 0), None, Some (Finite 0)],
                              backgroundColor = ''hsl(0, 70%, 50%)''\<rparr>]\<rparr>) \<and>
   (\<exists>c. chartData example_host blank_fetch = Inr (Some c) \<and> ''note'' \<in> set (map label (datasets c)) \<and>
      (\<forall>d\<in>set (datasets c). label d = ''note'' \<longrightarrow>
         length (data_series d) = length (data blank_fetch) \<and>
         (\<forall>i<length (data blank_fetch). get_prop (data blank_fetch ! i) ''note'' = JStr [] \<longrightarrow>
            data_series d ! i = Some (Finite 0))))"
proof -
  have a: "\<not> loading blank_fetch" and b: "\<not> truthy_str (error blank_fetch)"
    and c: "data blank_fetch \<noteq> []"
    by (simp_all add: blank_fetch_def truthy_str_def blank_data_def)
  have d: "sanitized_dataset (data blank_fetch)"
    by (simp add: blank_fetch_def blank_data_def sanitized_dataset_def object_keys_def
        object_values_def is_object_def)
  have k: "''note'' \<in> set (object_keys (data blank_fetch ! 0))"
    and v: "get_prop (data blank_fetch ! 0) ''note'' = JStr []"
    by (simp_all add: blank_fetch_def blank_data_def object_keys_def get_prop_def)
  have e: "chartData example_host blank_fetch =
     Inr (Some \<lparr>labels = [''Row 1'', ''Row 2'', ''Row 3''],
                 datasets = [\<lparr>label = ''note'', data_series = [Some (Finite 0), None, Some (Finite 0)],
                              backgroundColor = ''hsl(0, 70%, 50%)''\<rparr>]\<rparr>)"
    by code_simp
  show ?thesis
    using a b c d k v e empty_string_is_zero[OF a b c d k v, of example_host] by simp
qed

section \<open>Properties of the filter\<close>

lemma str_includes_sublist: "str_includes s t \<longleftrightarrow> sublist t s"
  by (induction s) (simp_all add: sublist_Cons_right)


lemma row_matches_sublist:
  "row_matches h flt row \<longleftrightarrow>
   (\<exists>v\<in>set (object_values row). sublist (toLowerCase flt) (toLowerCase (to_string h v)))"
  by (simp add: row_matches_def list_ex_iff str_includes_sublist)

lemma row_matches_empty: "row_matches h [] row \<longleftrightarrow> row \<noteq> []"
  by (cases row) (auto simp: row_matches_sublist object_values_def toLowerCase_def)




lemma set_insert_by: "set (insert_by cmp x xs) = insert x (set xs)"
  by (induction xs) auto

lemma set_array_sort: "set (array_sort cmp xs) = set xs"
  by (induction xs) (simp_all add: array_sort_def set_insert_by)

lemma mset_insert_by: "mset (insert_by cmp x xs) = add_mset x (mset xs)"
  by (induction xs) auto

lemma mset_array_sort: "mset (array_sort cmp xs) = mset xs"
  by (induction xs) (simp_all add: array_sort_def mset_insert_by)


text \<open>
  C6 (as amended). For a loaded dataset and a filter string, the filtered rows are, in
  source order, the records one of whose values, converted to a string, contains the
  filter as a substring after both are put in lower case; sorting shows the same
  records; and the empty filter retains exactly the records that have at least one
  value.
\<close>

theorem filter_retains_matching:
  assumes "\<not> loading st" and "\<not> truthy_str (error st)"
  shows "filteredData h st =
           filter (\<lambda>r. \<exists>v\<in>set (object_values r).
                          sublist (toLowerCase (filter_text st)) (toLowerCase (to_string h v)))
                  (data st) \<and>
         set (sortedData h st) = set (filteredData h st) \<and>
         (filter_text st = [] \<longrightarrow> filteredData h st = filter (\<lambda>r. r \<noteq> []) (data st))"
proof -
  have f: "filteredData h st = filter (row_matches h (filter_text st)) (data st)"
    using assms by (simp add: filteredData_def)
  have 1: "filteredData h st =
           filter (\<lambda>r. \<exists>v\<in>set (object_values r).
                          sublist (toLowerCase (filter_text st)) (toLowerCase (to_string h v)))
                  (data st)"
    unfolding f by (rule filter_cong) (simp_all add: row_matches_sublist)
  have 2: "set (sortedData h st) = set (filteredData h st)"
    by (simp add: sortedData_def set_array_sort)
  have 3: "filter_text st = [] \<longrightarrow> filteredData h st = filter (\<lambda>r. r \<noteq> []) (data st)"
    unfolding f by (auto intro!: filter_cong simp: row_matches_empty)
  from 1 2 3 show ?thesis by blast
qed

theorem filter_retains_matching_witness:
  "\<not> loading example_table \<and> \<not> truthy_str (error example_table) \<and>
   filteredData example_host example_table = [[(''name'', JStr ''Banana''), (''price'', JStr ''abc'')]] \<and>
   filteredData example_host example_table =
     filter (\<lambda>r. \<exists>v\<in>set (object_values r).
                    sublist (toLowerCase (filter_text example_table)) (toLowerCase (to_string example_host v)))
            (data example_table) \<and>
   set (sortedData example_host example_table) = set (filteredData example_host example_table) \<and>
   filter_text (example_table\<lparr>filter_text := []\<rparr>) = [] \<and>
   filteredData example_host (example_table\<lparr>filter_text := []\<rparr>) = data example_table"
proof -
  have a: "\<not> loading example_table" and b: "\<not> truthy_str (error example_table)"
    by (simp_all add: example_table_def truthy_str_def)
  have a': "\<not> loading (example_table\<lparr>filter_text := []\<rparr>)"
    and b': "\<not> truthy_str (error (example_table\<lparr>filter_text := []\<rparr>))"
    by (simp_all add: example_table_def truthy_str_def)
  have e: "filteredData example_host example_table = [[(''name'', JStr ''Banana''), (''price'', JStr ''abc'')]]"
    by code_simp
  have n: "filter (\<lambda>r. r \<noteq> []) (data example_table) = data example_table"
    by (simp add: example_table_def example_data_def)
  note T = filter_retains_matching[OF a b, of example_host]
  note T' = filter_retains_matching[OF a' b', of example_host]
  have f0: "filter_text (example_table\<lparr>filter_text := []\<rparr>) = []" by simp
  have g: "filteredData example_host (example_table\<lparr>filter_text := []\<rparr>) = data example_table"
    using T'[THEN conjunct2, THEN conjunct2] n by simp
  show ?thesis
    using a b e f0 g T by blast
qed

theorem filter_retains_matching_counterexample:
  "[] \<in> set (data \<lparr>data = [[(''name'', JStr ''Apple'')], []], loading = False, error = None,
                    filter_text = [], sortField = None, sortAsc = True\<rparr>) \<and>
   filteredData example_host \<lparr>data = [[(''name'', JStr ''Apple'')], []], loading = False, error = None,
                    filter_text = [], sortField = None, sortAsc = True\<rparr> = [[(''name'', JStr ''Apple'')]]"
  by (simp add: filteredData_def truthy_str_def row_matches_def object_values_def toLowerCase_def)



section \<open>Properties of the sort comparator\<close>









section \<open>Properties of the export\<close>


text \<open>
  C8. When an export reaches the serialisation (a path is set, the file is fetched and
  parsed without errors) and the serialisation throws, the export error is the only
  error set, the state of the table is unchanged and no download is produced.
\<close>

theorem export_failure:
  assumes "csvFilePath (home app) \<noteq> []"
    and "fetch env (csvFilePath (home app)) = Response status csvText"
    and "response_ok status"
    and "papa_parse env csvText = Complete rows []"
    and "serialize h env rows = Inl e"
  shows "exportError (home (handleExport h env app)) = Some ''Error generating CSV file for download.'' \<and>
         csvError (home (handleExport h env app)) = None \<and>
         fetchError (home (handleExport h env app)) = None \<and>
         parseError (home (handleExport h env app)) = None \<and>
         table (handleExport h env app) = table app \<and>
         downloads (handleExport h env app) = downloads app"
  using assms by (simp add: handleExport_def clear_errors_def Let_def)

theorem export_failure_witness:
  "csvFilePath (home example_app) \<noteq> [] \<and>
   fetch throwing_env (csvFilePath (home example_app)) = Response 200 (''name,price'' @ [CHR 0x0A] @ ''Apple,1.5'') \<and>
   response_ok 200 \<and>
   papa_parse throwing_env (''name,price'' @ [CHR 0x0A] @ ''Apple,1.5'')
     = Complete [JObj [(''name'', JStr ''Apple''), (''price'', JStr ''1.5'')]] [] \<and>
   serialize example_host throwing_env [JObj [(''name'', JStr ''Apple''), (''price'', JStr ''1.5'')]]
     = Inl (Error ''cannot serialise'') \<and>
   exportError (home (handleExport example_host throwing_env example_app))
     = Some ''Error generating CSV file for download.'' \<and>
   csvError (home (handleExport example_host throwing_env example_app)) = None \<and>
   fetchError (home (handleExport example_host throwing_env example_app)) = None \<and>
   parseError (home (handleExport example_host throwing_env example_app)) = None \<and>
   table (handleExport example_host throwing_env example_app) = table example_app \<and>
   downloads (handleExport example_host throwing_env example_app) = downloads example_app"
proof -
  have a: "csvFilePath (home example_app) \<noteq> []"
    by (simp add: example_app_def initial_home_def)
  have b: "fetch throwing_env (csvFilePath (home example_app)) = Response 200 (''name,price'' @ [CHR 0x0A] @ ''Apple,1.5'')"
    by (simp add: throwing_env_def)
  have c: "response_ok 200" by (simp add: response_ok_def)
  have d: "papa_parse throwing_env (''name,price'' @ [CHR 0x0A] @ ''Apple,1.5'')
     = Complete [JObj [(''name'', JStr ''Apple''), (''price'', JStr ''1.5'')]] []"
    by (simp add: throwing_env_def)
  have e: "serialize example_host throwing_env [JObj [(''name'', JStr ''Apple''), (''price'', JStr ''1.5'')]]
     = Inl (Error ''cannot serialise'')"
    by (simp add: serialize_def throwing_env_def sanitizedData_export_def sanitizedRow_export_def
        object_entries_def sanitize_value_def)
  show ?thesis
    using a b c d e export_failure[OF a b c d e] by blast
qed

text \<open>
  C9 (as amended). When export is invoked while no path is set, the selection error
  \<^verbatim>\<open>Please upload a CSV file first.\<close> is set and nothing else changes, so no download
  is triggered; when a path is set, the export sets no selection error, whatever the
  number of rows loaded.
\<close>

theorem export_without_path:
  "(csvFilePath (home app) = [] \<longrightarrow>
      handleExport h env app = app\<lparr>home := (home app)\<lparr>csvError := Some ''Please upload a CSV file first.''\<rparr>\<rparr>) \<and>
   (csvFilePath (home app) \<noteq> [] \<longrightarrow> csvError (home (handleExport h env app)) = None)"
  by (auto simp: handleExport_def clear_errors_def Let_def
      split: fetch_outcome.splits papa_outcome.splits sum.splits)

theorem export_without_path_witness:
  "csvFilePath (home (example_app\<lparr>home := initial_home\<lparr>csvFilePath := []\<rparr>\<rparr>)) = [] \<and>
   csvError (home (handleExport example_host missing_env (example_app\<lparr>home := initial_home\<lparr>csvFilePath := []\<rparr>\<rparr>)))
     = Some ''Please upload a CSV file first.'' \<and>
   downloads (handleExport example_host missing_env (example_app\<lparr>home := initial_home\<lparr>csvFilePath := []\<rparr>\<rparr>)) = [] \<and>
   csvFilePath (home example_app) \<noteq> [] \<and>
   csvError (home (handleExport example_host throwing_env example_app)) = None"
proof -
  let ?app = "example_app\<lparr>home := initial_home\<lparr>csvFilePath := []\<rparr>\<rparr>"
  have a: "csvFilePath (home ?app) = []" by simp
  have b: "csvFilePath (home example_app) \<noteq> []"
    by (simp add: example_app_def initial_home_def)
  have d: "downloads example_app = []" by (simp add: example_app_def)
  note A = export_without_path[of ?app example_host missing_env, THEN conjunct1, rule_format, OF a]
  note B = export_without_path[of example_app example_host throwing_env, THEN conjunct2, rule_format, OF b]
  show ?thesis
    using a b d B by (simp add: A)
qed

theorem export_without_path_counterexample:
  "data (table empty_app) = [] \<and>
   csvFilePath (home empty_app) = ''/2017PurchasePricesDec.csv'' \<and>
   csvError (home (handleExport example_host missing_env empty_app)) = None \<and>
   fetchError (home (handleExport example_host missing_env empty_app))
     = Some ''Error fetching CSV file: Network response was not ok: 404'' \<and>
   downloads (handleExport example_host missing_env empty_app) = []"
  by code_simp

end
